theory Spec2Isabelle
  imports Main "HOL-Library.Char_ord" "HOL-Library.List_Lexorder" "HOL-Library.Sublist"
begin

section \<open>The DigitalOcean API client of api.go\<close>

text \<open>
  The package of \<^verbatim>\<open>api.go\<close> has five functions: \<^verbatim>\<open>NewClient\<close>, the method
  \<^verbatim>\<open>Client.NewRequest\<close>, and the response validator \<^verbatim>\<open>checkResp\<close> with its
  helpers \<^verbatim>\<open>parseErr\<close> and \<^verbatim>\<open>decodeBody\<close>. Go strings are byte strings, and so
  are the strings of HOL (\<open>char\<close> is a byte), so a Go string is a \<open>string\<close> here.
\<close>

subsection \<open>Errors and panics\<close>

text \<open>
  A Go \<^verbatim>\<open>error\<close> is either made with \<^verbatim>\<open>fmt.Errorf\<close>, and is then identified with
  its message, or it is any other error value (of the transport, the body stream, a
  decoder): such a value is kept as it is, with the name of its dynamic type and its
  message. A nil error is \<open>None\<close> of \<open>error option\<close>.
\<close>

datatype error = Errorf string | External string string

text \<open>The method \<^verbatim>\<open>Error()\<close>, which the verb \<^verbatim>\<open>%s\<close> prints for an error.\<close>

fun Error :: "error \<Rightarrow> string" where
  "Error (Errorf m) = m"
| "Error (External t m) = m"

text \<open>A call either returns or panics (a nil pointer is dereferenced).\<close>

datatype 'a outcome = Panic | Return 'a

subsection \<open>The data of the package and of net/http\<close>

text \<open>\<^verbatim>\<open>const DIGITALOCEAN_API_URL\<close>\<close>

definition DIGITALOCEAN_API_URL :: string where
  "DIGITALOCEAN_API_URL = ''https://api.digitalocean.com/v2''"

text \<open>\<^verbatim>\<open>type Client struct\<close>; \<open>Http\<close> is a pointer, nil when it is \<open>None\<close>.\<close>

record Client =
  Token :: string
  URL :: string
  Http :: "nat option"

text \<open>\<^verbatim>\<open>type DoError struct\<close>; the field \<^verbatim>\<open>Id\<close> is written \<open>Id'\<close>.\<close>

record DoError =
  Id' :: string
  Message :: string

text \<open>
  The body of a response is an \<^verbatim>\<open>io.ReadCloser\<close>: a stream that still holds the
  bytes \<open>unread\<close> and then ends, with \<^verbatim>\<open>io.EOF\<close> when \<open>read_error\<close> is \<open>None\<close>
  and with that error otherwise. \<open>read_calls\<close> and \<open>close_calls\<close> count the calls of
  \<^verbatim>\<open>ioutil.ReadAll\<close> and of \<^verbatim>\<open>Close\<close> on the stream; the program cannot read them.
\<close>

record ReadCloser =
  unread :: string
  read_error :: "error option"
  read_calls :: nat
  close_calls :: nat

text \<open>
  \<^verbatim>\<open>ioutil.ReadAll\<close> reads until the stream ends and returns the bytes read together
  with the error that ended the stream (nil for \<^verbatim>\<open>io.EOF\<close>).
\<close>

definition ReadAll :: "ReadCloser \<Rightarrow> (string \<times> error option) \<times> ReadCloser" where
  "ReadAll b = ((unread b, read_error b), b\<lparr>unread := [], read_calls := Suc (read_calls b)\<rparr>)"

definition Close :: "ReadCloser \<Rightarrow> ReadCloser" where
  "Close b = b\<lparr>close_calls := Suc (close_calls b)\<rparr>"

text \<open>
  Of \<^verbatim>\<open>http.Response\<close> the package reads \<^verbatim>\<open>StatusCode\<close> and \<^verbatim>\<open>Body\<close>. net/http
  documents that the body of a response it returns is never nil.
\<close>

record Response =
  StatusCode :: int
  Body :: ReadCloser

text \<open>\<^verbatim>\<open>url.URL\<close>; \<open>User\<close> is the user name and the optional password.\<close>

record url_URL =
  Scheme :: string
  Opaque :: string
  User :: "(string \<times> string option) option"
  Host :: string
  Path :: string
  RawPath :: string
  OmitHost :: bool
  ForceQuery :: bool
  RawQuery :: string
  Fragment :: string
  RawFragment :: string

text \<open>
  \<^verbatim>\<open>http.Request\<close>, as \<^verbatim>\<open>http.NewRequest\<close> fills it for a request without a body:
  \<open>Req_URL\<close> and \<open>Req_Host\<close> are its fields \<^verbatim>\<open>URL\<close> and \<^verbatim>\<open>Host\<close>. A header is a
  map from (canonical) keys to the list of their values.
\<close>

record Request =
  Method :: string
  Req_URL :: url_URL
  Proto :: string
  Header :: "string \<Rightarrow> string list option"
  Req_Host :: string

subsection \<open>The store\<close>

text \<open>
  \<^verbatim>\<open>*Client\<close> and \<^verbatim>\<open>*http.Response\<close> are pointers: the objects live in a store, one
  list for each type, and a pointer is \<open>None\<close> (nil) or the index of its object. An
  index outside the list is no pointer of a Go program; \<open>load\<close> treats it as nil.
\<close>

record heap =
  clients :: "Client list"
  responses :: "Response list"

type_synonym ptr = "nat option"

definition load :: "'a list \<Rightarrow> ptr \<Rightarrow> 'a option" where
  "load xs p = (case p of None \<Rightarrow> None | Some a \<Rightarrow> if a < length xs then Some (xs ! a) else None)"

definition store_Body :: "heap \<Rightarrow> nat \<Rightarrow> ReadCloser \<Rightarrow> heap" where
  "store_Body h a b = h\<lparr>responses := (responses h)[a := (responses h ! a)\<lparr>Body := b\<rparr>]\<rparr>"

subsection \<open>The standard library, as far as it is a parameter\<close>

text \<open>
  Four functions of Go's standard library are parameters of the model: every theorem
  below that is stated for a library \<open>L\<close> holds whatever these functions compute.
  \<^item> \<open>url_Parse\<close> is \<^verbatim>\<open>url.Parse\<close>;
  \<^item> \<open>URL_String\<close> is the method \<^verbatim>\<open>(*url.URL).String\<close>;
  \<^item> \<open>strconv_Quote\<close> is \<^verbatim>\<open>strconv.Quote\<close>, which the verb \<^verbatim>\<open>%q\<close> prints;
  \<^item> \<open>json_Unmarshal body out\<close> is \<^verbatim>\<open>json.Unmarshal(body, &out)\<close> for an
    \<^verbatim>\<open>out interface{}\<close> that holds a pointer to a \<^verbatim>\<open>DoError\<close> of value \<open>out\<close>: it
    returns the value of that struct after the call, and the error.
\<close>

record stdlib =
  url_Parse :: "string \<Rightarrow> error + url_URL"
  URL_String :: "url_URL \<Rightarrow> string"
  strconv_Quote :: "string \<Rightarrow> string"
  json_Unmarshal :: "string \<Rightarrow> DoError \<Rightarrow> DoError \<times> error option"

subsection \<open>net/url: query escaping and url.Values\<close>

text \<open>
  \<^verbatim>\<open>shouldEscape(c, encodeQueryComponent)\<close>: letters, digits and \<^verbatim>\<open>-_.~\<close> are kept,
  every other byte is escaped.
\<close>

definition shouldEscape :: "char \<Rightarrow> bool" where
  "shouldEscape c \<longleftrightarrow>
     \<not> (CHR ''a'' \<le> c \<and> c \<le> CHR ''z'' \<or> CHR ''A'' \<le> c \<and> c \<le> CHR ''Z'' \<or>
        CHR ''0'' \<le> c \<and> c \<le> CHR ''9'' \<or>
        c = CHR ''-'' \<or> c = CHR ''_'' \<or> c = CHR ''.'' \<or> c = CHR ''~'')"

definition upperhex :: string where
  "upperhex = ''0123456789ABCDEF''"

text \<open>
  \<^verbatim>\<open>url.QueryEscape\<close>: a space becomes \<^verbatim>\<open>+\<close>, a byte to escape becomes \<^verbatim>\<open>%\<close> and
  the two hexadecimal digits \<^verbatim>\<open>upperhex[c>>4]\<close>, \<^verbatim>\<open>upperhex[c&15]\<close>.
\<close>

fun QueryEscape :: "string \<Rightarrow> string" where
  "QueryEscape [] = []"
| "QueryEscape (c # s) =
     (if c = CHR '' '' then CHR ''+'' # QueryEscape s
      else if shouldEscape c then
        CHR ''%'' # upperhex ! (of_char c div 16) # upperhex ! (of_char c mod 16) # QueryEscape s
      else c # QueryEscape s)"





text \<open>
  \<^verbatim>\<open>url.Values\<close> is a \<^verbatim>\<open>map[string][]string\<close>: here a list of keys with their
  values, each key once. \<^verbatim>\<open>Values.Add\<close> appends a value to the values of its key.
\<close>

type_synonym Values = "(string \<times> string list) list"

definition Values_Add :: "Values \<Rightarrow> string \<Rightarrow> string \<Rightarrow> Values" where
  "Values_Add p k v =
     (case map_of p k of
        None \<Rightarrow> p @ [(k, [v])]
      | Some vs \<Rightarrow> map (\<lambda>(k', vs'). if k' = k then (k', vs' @ [v]) else (k', vs')) p)"

text \<open>
  \<^verbatim>\<open>Values.Encode\<close>: empty for an empty map; otherwise the keys are sorted (as byte
  strings), and every value of every key is written as \<^verbatim>\<open>key=value\<close>, both escaped,
  with \<^verbatim>\<open>&\<close> before it unless the buffer is still empty.
\<close>

definition Encode_pair :: "string \<Rightarrow> string \<Rightarrow> string \<Rightarrow> string" where
  "Encode_pair keyEscaped buf v =
     (if buf \<noteq> [] then buf @ ''&'' else buf) @ keyEscaped @ ''='' @ QueryEscape v"

definition Values_Encode :: "Values \<Rightarrow> string" where
  "Values_Encode p =
     (if p = [] then []
      else foldl (\<lambda>buf k. foldl (Encode_pair (QueryEscape k)) buf
                   (case map_of p k of None \<Rightarrow> [] | Some vs \<Rightarrow> vs))
             [] (sort (map fst p)))"





subsection \<open>net/http: header keys and http.NewRequest\<close>

text \<open>
  The bytes of an HTTP token (\<^verbatim>\<open>httpguts.IsTokenRune\<close>, \<^verbatim>\<open>validHeaderFieldByte\<close>).
\<close>

definition isTokenByte :: "char \<Rightarrow> bool" where
  "isTokenByte c \<longleftrightarrow>
     CHR ''a'' \<le> c \<and> c \<le> CHR ''z'' \<or> CHR ''A'' \<le> c \<and> c \<le> CHR ''Z'' \<or>
     CHR ''0'' \<le> c \<and> c \<le> CHR ''9'' \<or> c \<in> set ''!#$%&*+-.^_|~'' \<or> c = CHR 0x27 \<or> c = CHR 0x60"

definition validMethod :: "string \<Rightarrow> bool" where
  "validMethod method \<longleftrightarrow> method \<noteq> [] \<and> list_all isTokenByte method"

text \<open>
  \<^verbatim>\<open>textproto.CanonicalMIMEHeaderKey\<close>: a key of token bytes gets an upper-case
  letter first and after every \<^verbatim>\<open>-\<close> and lower-case letters elsewhere; any other
  key is returned as it is.
\<close>

fun canonical :: "bool \<Rightarrow> string \<Rightarrow> string" where
  "canonical upper [] = []"
| "canonical upper (c # s) =
     (let c' = (if upper \<and> CHR ''a'' \<le> c \<and> c \<le> CHR ''z'' then char_of (of_char c - (32::nat))
                else if \<not> upper \<and> CHR ''A'' \<le> c \<and> c \<le> CHR ''Z'' then char_of (of_char c + (32::nat))
                else c)
      in c' # canonical (c' = CHR ''-'') s)"

definition CanonicalMIMEHeaderKey :: "string \<Rightarrow> string" where
  "CanonicalMIMEHeaderKey s = (if list_all isTokenByte s then canonical True s else s)"

text \<open>\<^verbatim>\<open>Header.Add(key, value)\<close> appends the value to the values of the canonical key.\<close>

definition Header_Add ::
  "(string \<Rightarrow> string list option) \<Rightarrow> string \<Rightarrow> string \<Rightarrow> (string \<Rightarrow> string list option)" where
  "Header_Add hdr key v =
     (let k = CanonicalMIMEHeaderKey key
      in hdr(k \<mapsto> (case hdr k of None \<Rightarrow> [] | Some vs \<Rightarrow> vs) @ [v]))"

text \<open>
  \<^verbatim>\<open>removeEmptyPort(host)\<close> drops a last \<^verbatim>\<open>:\<close> that stands after the last \<^verbatim>\<open>]\<close>.
\<close>

definition LastIndex :: "string \<Rightarrow> char \<Rightarrow> int" where
  "LastIndex s c = (if c \<in> set s then int (length s) - 1 - int (length (takeWhile (\<lambda>x. x \<noteq> c) (rev s))) else - 1)"

definition hasPort :: "string \<Rightarrow> bool" where
  "hasPort s \<longleftrightarrow> LastIndex s CHR '':'' > LastIndex s CHR '']''"

definition removeEmptyPort :: "string \<Rightarrow> string" where
  "removeEmptyPort host =
     (if hasPort host then (if host \<noteq> [] \<and> last host = CHR '':'' then butlast host else host)
      else host)"

text \<open>
  \<^verbatim>\<open>http.NewRequest(method, url, nil)\<close>: an empty method is \<^verbatim>\<open>GET\<close>; a method that is
  no token is refused; the URL is parsed; the request has an empty header.
\<close>

definition http_NewRequest :: "stdlib \<Rightarrow> string \<Rightarrow> string \<Rightarrow> error + Request" where
  "http_NewRequest L method url =
     (let method' = (if method = [] then ''GET'' else method) in
      if \<not> validMethod method' then
        Inl (Errorf (''net/http: invalid method '' @ strconv_Quote L method'))
      else
        (case url_Parse L url of
           Inl err \<Rightarrow> Inl err
         | Inr u \<Rightarrow>
             let u' = u\<lparr>Host := removeEmptyPort (Host u)\<rparr>
             in Inr \<lparr>Method = method', Req_URL = u', Proto = ''HTTP/1.1'',
                     Header = Map.empty, Req_Host = Host u'\<rparr>))"

subsection \<open>NewClient\<close>

text \<open>
  \<^verbatim>\<open>client := &Client{Token: token, URL: DIGITALOCEAN_API_URL}; return client, nil\<close>:
  the new object is put at a fresh place of the store.
\<close>

definition NewClient :: "string \<Rightarrow> heap \<Rightarrow> (ptr \<times> error option) \<times> heap" where
  "NewClient token h =
     ((Some (length (clients h)), None),
      h\<lparr>clients := clients h @ [\<lparr>Token = token, URL = DIGITALOCEAN_API_URL, Http = None\<rparr>]\<rparr>)"

subsection \<open>Client.NewRequest\<close>

text \<open>
  The parameters are a Go map: \<open>params\<close> lists its entries in the order in which
  this run of \<^verbatim>\<open>range params\<close> yields them (each key once). The loop adds every
  entry to \<^verbatim>\<open>p\<close>, and \<^verbatim>\<open>p.Encode()\<close> becomes the query of the parsed base URL.
\<close>

definition query_of :: "(string \<times> string) list \<Rightarrow> string" where
  "query_of params = Values_Encode (foldl (\<lambda>p (k, v). Values_Add p k v) [] params)"

text \<open>
  \<^verbatim>\<open>(c *Client) NewRequest(params, method, endpoint)\<close>. The source parses
  \<^verbatim>\<open>c.URL\<close> and never reads \<^verbatim>\<open>endpoint\<close>. The call returns \<^verbatim>\<open>(nil, err)\<close>, here
  \<open>Inl err\<close>, or \<^verbatim>\<open>(req, nil)\<close>, here \<open>Inr req\<close> with the value of the new request.
\<close>

definition NewRequest ::
  "stdlib \<Rightarrow> heap \<Rightarrow> ptr \<Rightarrow> (string \<times> string) list \<Rightarrow> string \<Rightarrow> string \<Rightarrow> (error + Request) outcome" where
  "NewRequest L h c params method endpoint =
     (case load (clients h) c of
        None \<Rightarrow> Panic
      | Some cl \<Rightarrow>
          (case url_Parse L (URL cl) of
             Inl err \<Rightarrow> Return (Inl (Errorf (''Error parsing base URL: '' @ Error err)))
           | Inr u \<Rightarrow>
               (case http_NewRequest L method (URL_String L (u\<lparr>RawQuery := query_of params\<rparr>)) of
                  Inl err \<Rightarrow> Return (Inl (Errorf (''Error creating request: '' @ Error err)))
                | Inr req \<Rightarrow>
                    Return (Inr (req\<lparr>Header :=
                      Header_Add (Header req) ''Authorization'' (''Bearer '' @ Token cl)\<rparr>)))))"

subsection \<open>The response validator\<close>

text \<open>
  \<^verbatim>\<open>decodeBody(resp, out)\<close>: read the whole body, close it, return the read error if
  there is one, and the decoder's error otherwise. The result holds the returned
  error, the value of the struct behind \<^verbatim>\<open>out\<close> after the call, and the store.
\<close>

definition decodeBody ::
  "stdlib \<Rightarrow> heap \<Rightarrow> ptr \<Rightarrow> DoError \<Rightarrow> ((error option \<times> DoError) \<times> heap) outcome" where
  "decodeBody L h resp out =
     (case resp of
        None \<Rightarrow> Panic
      | Some a \<Rightarrow>
          if a < length (responses h) then
            (case ReadAll (Body (responses h ! a)) of
               ((body, err), b) \<Rightarrow>
                 let h' = store_Body h a (Close b) in
                 (case err of
                    Some e \<Rightarrow> Return ((Some e, out), h')
                  | None \<Rightarrow>
                      (case json_Unmarshal L body out of
                         (out', Some e) \<Rightarrow> Return ((Some e, out'), h')
                       | (out', None) \<Rightarrow> Return ((None, out'), h'))))
          else Panic)"

text \<open>
  \<^verbatim>\<open>parseErr(resp)\<close>: decode the body into \<^verbatim>\<open>new(DoError)\<close>, whose fields are empty,
  and format the error with \<^verbatim>\<open>fmt.Errorf\<close>; the verb \<^verbatim>\<open>%s\<close> prints a string as it is
  and an error by its method \<^verbatim>\<open>Error()\<close>.
\<close>

definition parseErr :: "stdlib \<Rightarrow> heap \<Rightarrow> ptr \<Rightarrow> (error option \<times> heap) outcome" where
  "parseErr L h resp =
     (case decodeBody L h resp \<lparr>Id' = [], Message = []\<rparr> of
        Panic \<Rightarrow> Panic
      | Return ((Some e, errBody), h') \<Rightarrow>
          Return (Some (Errorf (''Error parsing error body for non-200 request: '' @ Error e)), h')
      | Return ((None, errBody), h') \<Rightarrow>
          Return (Some (Errorf (''API Error: '' @ Id' errBody @ '': '' @ Message errBody)), h'))"

text \<open>
  \<^verbatim>\<open>checkResp(resp, err)\<close>, with the condition of the source,
  \<^verbatim>\<open>resp.StatusCode != 200 || resp.StatusCode != 204\<close>.
\<close>

definition checkResp ::
  "stdlib \<Rightarrow> heap \<Rightarrow> ptr \<Rightarrow> error option \<Rightarrow> ((ptr \<times> error option) \<times> heap) outcome" where
  "checkResp L h resp err =
     (case err of
        Some e \<Rightarrow> Return ((resp, Some e), h)
      | None \<Rightarrow>
          (case load (responses h) resp of
             None \<Rightarrow> Panic
           | Some r \<Rightarrow>
               if StatusCode r \<noteq> 200 \<or> StatusCode r \<noteq> 204 then
                 (case parseErr L h resp of
                    Panic \<Rightarrow> Panic
                  | Return (e, h') \<Rightarrow> Return ((resp, e), h'))
               else Return ((resp, None), h)))"

subsection \<open>A reference library for concrete runs\<close>

text \<open>
  The theorems about a library \<open>L\<close> need no more than the types of its functions. To
  run the package on concrete inputs, the following functions give the results of the
  four library functions on a part of their inputs, and \<open>None\<close> on every other input:
  nothing is said there. The part is small on purpose, so that each result can be
  compared with the Go documentation at sight.

  \<open>url_Parse_plain\<close> covers \<^verbatim>\<open>scheme://host/path?query\<close> with a scheme of lower-case
  letters, a host of lower-case letters, digits, \<^verbatim>\<open>.\<close> and \<^verbatim>\<open>-\<close>, a path (empty, or
  from the first \<^verbatim>\<open>/\<close> on) of unreserved bytes and \<^verbatim>\<open>/\<close>, and an optional
  non-empty query of unreserved bytes and \<^verbatim>\<open>%+=&\<close>: \<^verbatim>\<open>url.Parse\<close> splits such a
  URL into these four parts and leaves the other fields empty.
\<close>

definition unreserved :: "char \<Rightarrow> bool" where
  "unreserved c \<longleftrightarrow> \<not> shouldEscape c"

definition host_byte :: "char \<Rightarrow> bool" where
  "host_byte c \<longleftrightarrow>
     CHR ''a'' \<le> c \<and> c \<le> CHR ''z'' \<or> CHR ''0'' \<le> c \<and> c \<le> CHR ''9'' \<or> c = CHR ''.'' \<or> c = CHR ''-''"

definition path_byte :: "char \<Rightarrow> bool" where
  "path_byte c \<longleftrightarrow> unreserved c \<or> c = CHR ''/''"

definition query_byte :: "char \<Rightarrow> bool" where
  "query_byte c \<longleftrightarrow> unreserved c \<or> c \<in> set ''%+=&''"

definition url_Parse_plain :: "string \<Rightarrow> (error + url_URL) option" where
  "url_Parse_plain s =
     (let scheme = takeWhile (\<lambda>c. CHR ''a'' \<le> c \<and> c \<le> CHR ''z'') s;
          s1 = drop (length scheme) s;
          s2 = drop 3 s1;
          host = takeWhile host_byte s2;
          s3 = drop (length host) s2;
          path = takeWhile path_byte s3;
          s4 = drop (length path) s3
      in if scheme \<noteq> [] \<and> take 3 s1 = ''://'' \<and> host \<noteq> [] \<and>
            (path = [] \<or> hd path = CHR ''/'') \<and>
            (s4 = [] \<or> hd s4 = CHR ''?'' \<and> tl s4 \<noteq> [] \<and> list_all query_byte (tl s4))
         then Some (Inr \<lparr>Scheme = scheme, Opaque = [], User = None, Host = host, Path = path,
                 RawPath = [], OmitHost = False, ForceQuery = False, RawQuery = tl s4,
                 Fragment = [], RawFragment = []\<rparr>)
         else None)"

text \<open>
  \<open>URL_String_plain\<close> covers the URLs of that form, whatever their query:
  \<^verbatim>\<open>String\<close> writes \<^verbatim>\<open>scheme://host/path\<close>, and \<^verbatim>\<open>?\<close> with the query when the
  query is not empty.
\<close>

definition URL_String_plain :: "url_URL \<Rightarrow> string option" where
  "URL_String_plain u =
     (if Scheme u \<noteq> [] \<and> list_all (\<lambda>c. CHR ''a'' \<le> c \<and> c \<le> CHR ''z'') (Scheme u) \<and>
         Opaque u = [] \<and> User u = None \<and> Host u \<noteq> [] \<and> list_all host_byte (Host u) \<and>
         (Path u = [] \<or> hd (Path u) = CHR ''/'') \<and> list_all path_byte (Path u) \<and>
         RawPath u = [] \<and> \<not> OmitHost u \<and> \<not> ForceQuery u \<and> Fragment u = [] \<and> RawFragment u = []
      then Some (Scheme u @ ''://'' @ Host u @ Path u @
                 (if RawQuery u \<noteq> [] then ''?'' @ RawQuery u else []))
      else None)"

text \<open>
  \<open>strconv_Quote_plain\<close> covers the strings of printable ASCII bytes without
  \<^verbatim>\<open>"\<close> and \<^verbatim>\<open>\\<close>: \<^verbatim>\<open>strconv.Quote\<close> puts them between double quotes.
\<close>

definition plain_byte :: "char \<Rightarrow> bool" where
  "plain_byte c \<longleftrightarrow> CHR 0x20 \<le> c \<and> c \<le> CHR 0x7E \<and> c \<noteq> CHR 0x22 \<and> c \<noteq> CHR 0x5C"

definition strconv_Quote_plain :: "string \<Rightarrow> string option" where
  "strconv_Quote_plain s = (if list_all plain_byte s then Some ([CHR 0x22] @ s @ [CHR 0x22]) else None)"

text \<open>
  \<open>json_Unmarshal_flat\<close> covers three kinds of documents, with JSON white space
  anywhere between the tokens:
  \<^item> a document of nothing but white space, which \<^verbatim>\<open>json.Unmarshal\<close> refuses
    with the syntax error \<^verbatim>\<open>unexpected end of JSON input\<close>;
  \<^item> the document \<^verbatim>\<open>null\<close>, which it accepts and which changes nothing;
  \<^item> an object whose keys and string values are string literals of printable ASCII
    bytes without escapes, and whose values are string literals, \<^verbatim>\<open>null\<close>,
    \<^verbatim>\<open>true\<close> or \<^verbatim>\<open>false\<close>. A key that is \<^verbatim>\<open>id\<close> or \<^verbatim>\<open>message\<close>, in upper or
    lower case, names the field \<^verbatim>\<open>Id\<close> or \<^verbatim>\<open>Message\<close>; a string value is stored in
    its field, \<^verbatim>\<open>null\<close> leaves it, any other key is skipped, and the members are
    read from left to right. (\<^verbatim>\<open>true\<close> or \<^verbatim>\<open>false\<close> for one of the two fields is a
    type error, and is not covered.)
\<close>

datatype token = LBrace | RBrace | Colon | Comma | JString string | JNull | JTrue | JFalse

definition isSpace :: "char \<Rightarrow> bool" where
  "isSpace c \<longleftrightarrow> c = CHR 0x20 \<or> c = CHR 0x09 \<or> c = CHR 0x0D \<or> c = CHR 0x0A"

text \<open>The first argument of \<open>lex\<close> is the string literal being read, if any.\<close>

fun lex :: "string option \<Rightarrow> string \<Rightarrow> token list option" where
  "lex (Some lit) [] = None"
| "lex (Some lit) (c # cs) =
     (if c = CHR 0x22 then map_option (Cons (JString lit)) (lex None cs)
      else if plain_byte c then lex (Some (lit @ [c])) cs
      else None)"
| "lex None [] = Some []"
| "lex None (c # cs) =
     (if isSpace c then lex None cs
      else if c = CHR ''{'' then map_option (Cons LBrace) (lex None cs)
      else if c = CHR ''}'' then map_option (Cons RBrace) (lex None cs)
      else if c = CHR '':'' then map_option (Cons Colon) (lex None cs)
      else if c = CHR '','' then map_option (Cons Comma) (lex None cs)
      else if c = CHR 0x22 then lex (Some []) cs
      else if take 4 (c # cs) = ''null'' then map_option (Cons JNull) (lex None (drop 3 cs))
      else if take 4 (c # cs) = ''true'' then map_option (Cons JTrue) (lex None (drop 3 cs))
      else if take 5 (c # cs) = ''false'' then map_option (Cons JFalse) (lex None (drop 4 cs))
      else None)"

definition lower :: "char \<Rightarrow> char" where
  "lower c = (if CHR ''A'' \<le> c \<and> c \<le> CHR ''Z'' then char_of (of_char c + (32::nat)) else c)"

definition store_member :: "DoError \<Rightarrow> string \<Rightarrow> token \<Rightarrow> DoError option" where
  "store_member d k v =
     (let known = (map lower k = ''id'' \<or> map lower k = ''message'') in
      case v of
        JString s \<Rightarrow>
          Some (if map lower k = ''id'' then d\<lparr>Id' := s\<rparr>
                else if map lower k = ''message'' then d\<lparr>Message := s\<rparr> else d)
      | JNull \<Rightarrow> Some d
      | JTrue \<Rightarrow> if known then None else Some d
      | JFalse \<Rightarrow> if known then None else Some d
      | _ \<Rightarrow> None)"

fun members :: "DoError \<Rightarrow> token list \<Rightarrow> DoError option" where
  "members d (JString k # Colon # v # ts) =
     (case store_member d k v of
        None \<Rightarrow> None
      | Some d' \<Rightarrow>
          (case ts of
             [RBrace] \<Rightarrow> Some d'
           | Comma # ts' \<Rightarrow> members d' ts'
           | _ \<Rightarrow> None))"
| "members d ts = None"

definition json_Unmarshal_flat :: "string \<Rightarrow> DoError \<Rightarrow> (DoError \<times> error option) option" where
  "json_Unmarshal_flat body out =
     (case lex None body of
        None \<Rightarrow> None
      | Some [] \<Rightarrow>
          Some (out, Some (External ''*json.SyntaxError'' ''unexpected end of JSON input''))
      | Some [JNull] \<Rightarrow> Some (out, None)
      | Some [LBrace, RBrace] \<Rightarrow> Some (out, None)
      | Some (LBrace # ts) \<Rightarrow> map_option (\<lambda>d. (d, None)) (members out ts)
      | Some _ \<Rightarrow> None)"

text \<open>
  The reference library: the four functions where they are covered. Outside, \<open>the\<close>
  leaves the result unspecified, so nothing can be computed or proved from it.
\<close>

definition stdlib_ref :: stdlib where
  "stdlib_ref =
     \<lparr>url_Parse = (\<lambda>s. the (url_Parse_plain s)),
      URL_String = (\<lambda>u. the (URL_String_plain u)),
      strconv_Quote = (\<lambda>s. the (strconv_Quote_plain s)),
      json_Unmarshal = (\<lambda>body out. the (json_Unmarshal_flat body out))\<rparr>"

subsection \<open>Notions for the statements\<close>

text \<open>A stream after \<^verbatim>\<open>ioutil.ReadAll\<close> and then \<^verbatim>\<open>Close\<close>, as \<open>decodeBody\<close> leaves it.\<close>

definition drained :: "ReadCloser \<Rightarrow> ReadCloser" where
  "drained b = Close (snd (ReadAll b))"

text \<open>A stream that nobody has touched yet, holding the given bytes.\<close>

definition fresh_body :: "string \<Rightarrow> ReadCloser" where
  "fresh_body bytes = \<lparr>unread = bytes, read_error = None, read_calls = 0, close_calls = 0\<rparr>"

text \<open>A store with one response (at address 0) and no client.\<close>

definition one_response :: "int \<Rightarrow> string \<Rightarrow> heap" where
  "one_response code bytes = \<lparr>clients = [], responses = [\<lparr>StatusCode = code, Body = fresh_body bytes\<rparr>]\<rparr>"

text \<open>The empty store, and a store after \<^verbatim>\<open>NewClient(token)\<close> has run in it.\<close>

definition empty_heap :: heap where
  "empty_heap = \<lparr>clients = [], responses = []\<rparr>"

definition with_client :: "string \<Rightarrow> heap \<Rightarrow> heap" where
  "with_client token h = snd (NewClient token h)"

text \<open>What a run returns, and the responses of the store it leaves.\<close>

definition observable :: "('a \<times> heap) outcome \<Rightarrow> ('a \<times> Response list) outcome" where
  "observable out = map_outcome (\<lambda>(res, h). (res, responses h)) out"





text \<open>The error body of the API for a resource that does not exist.\<close>

definition not_found_json :: string where
  \<open>not_found_json = ''{"id":"not_found","message":"The resource was not found"}''\<close>

text \<open>An error body in which the server repeats the token it was sent.\<close>

definition unauthorized_json :: string where
  \<open>unauthorized_json = ''{"id":"unauthorized","message":"bad token secret"}''\<close>

section \<open>Properties\<close>

subsection \<open>What the three functions of the validator compute\<close>

lemma load_SomeD: "load xs p = Some x \<Longrightarrow> \<exists>a. p = Some a \<and> a < length xs \<and> xs ! a = x"
  by (cases p) (auto simp: load_def split: if_splits)

lemma drained_eq:
  "drained b = b\<lparr>unread := [], read_calls := Suc (read_calls b), close_calls := Suc (close_calls b)\<rparr>"
  by (simp add: drained_def ReadAll_def Close_def)

lemma drained_neq: "drained b \<noteq> b"
proof
  assume "drained b = b"
  then have "close_calls (drained b) = close_calls b" by simp
  then show False by (simp add: drained_eq)
qed

lemma decodeBody_eq:
  assumes "a < length (responses h)"
  shows "decodeBody L h (Some a) out =
     Return ((case read_error (Body (responses h ! a)) of
                Some e \<Rightarrow> (Some e, out)
              | None \<Rightarrow> (snd (json_Unmarshal L (unread (Body (responses h ! a))) out),
                         fst (json_Unmarshal L (unread (Body (responses h ! a))) out))),
             store_Body h a (drained (Body (responses h ! a))))"
  using assms
  by (auto simp: decodeBody_def ReadAll_def Close_def drained_def Let_def
           split: option.splits prod.splits)

text \<open>The message of the error that \<open>parseErr\<close> returns for a response \<open>r\<close>.\<close>

lemma parseErr_eq:
  assumes "a < length (responses h)"
  shows "parseErr L h (Some a) =
     Return (Some (Errorf
        (case read_error (Body (responses h ! a)) of
           Some e \<Rightarrow> ''Error parsing error body for non-200 request: '' @ Error e
         | None \<Rightarrow>
            (case json_Unmarshal L (unread (Body (responses h ! a))) \<lparr>Id' = [], Message = []\<rparr> of
               (d, Some e) \<Rightarrow> ''Error parsing error body for non-200 request: '' @ Error e
             | (d, None) \<Rightarrow> ''API Error: '' @ Id' d @ '': '' @ Message d))),
        store_Body h a (drained (Body (responses h ! a))))"
  unfolding parseErr_def decodeBody_eq[OF assms]
  by (auto split: option.splits prod.splits)

lemma checkResp_eq:
  assumes "a < length (responses h)"
  shows "checkResp L h (Some a) None =
     (case parseErr L h (Some a) of Panic \<Rightarrow> Panic | Return (e, h') \<Rightarrow> Return ((Some a, e), h'))"
  using assms by (simp add: checkResp_def load_def)

lemma load_store_Body:
  "a < length (responses h) \<Longrightarrow>
   load (responses (store_Body h a b)) (Some a) = Some ((responses h ! a)\<lparr>Body := b\<rparr>)"
  by (simp add: load_def store_Body_def)

lemma clients_store_Body: "clients (store_Body h a b) = clients h"
  by (simp add: store_Body_def)

subsection \<open>The reference library on the inputs used below\<close>

lemma ref_Unmarshal_not_found:
  "json_Unmarshal stdlib_ref not_found_json \<lparr>Id' = [], Message = []\<rparr> =
     (\<lparr>Id' = ''not_found'', Message = ''The resource was not found''\<rparr>, None)"
  by code_simp

lemma ref_Unmarshal_null:
  "json_Unmarshal stdlib_ref ''null'' \<lparr>Id' = [], Message = []\<rparr> = (\<lparr>Id' = [], Message = []\<rparr>, None)"
  by code_simp

lemma ref_Unmarshal_empty_object:
  "json_Unmarshal stdlib_ref ''{}'' \<lparr>Id' = [], Message = []\<rparr> = (\<lparr>Id' = [], Message = []\<rparr>, None)"
  by code_simp

lemma ref_Unmarshal_empty:
  "json_Unmarshal stdlib_ref [] \<lparr>Id' = [], Message = []\<rparr> =
     (\<lparr>Id' = [], Message = []\<rparr>, Some (External ''*json.SyntaxError'' ''unexpected end of JSON input''))"
  by code_simp

lemma ref_Unmarshal_unauthorized:
  "json_Unmarshal stdlib_ref unauthorized_json \<lparr>Id' = [], Message = []\<rparr> =
     (\<lparr>Id' = ''unauthorized'', Message = ''bad token secret''\<rparr>, None)"
  by code_simp

lemma one_response_simps:
  "length (responses (one_response code bytes)) = 1"
  "responses (one_response code bytes) ! 0 = \<lparr>StatusCode = code, Body = fresh_body bytes\<rparr>"
  "load (responses (one_response code bytes)) (Some 0) = Some \<lparr>StatusCode = code, Body = fresh_body bytes\<rparr>"
  by (simp_all add: one_response_def load_def)

subsection \<open>The claims about the validator\<close>

text \<open>
  C7. When the transport error is not nil, \<open>checkResp\<close> returns the response pointer
  and that same error value, not wrapped, and the store is as it was: no body has been
  read or closed. This holds for every response pointer, the nil pointer included.
\<close>

theorem checkResp_transport_error:
  "checkResp L h resp (Some e) = Return ((resp, Some e), h)"
  by (simp add: checkResp_def)

theorem checkResp_transport_error_witness:
  "checkResp stdlib_ref empty_heap None (Some (External ''*url.Error'' ''dial tcp: connection refused'')) =
     Return ((None, Some (External ''*url.Error'' ''dial tcp: connection refused'')), empty_heap) \<and>
   checkResp stdlib_ref (one_response 302 ''moved'') (Some 0) (Some (External ''*url.Error'' ''stopped after 10 redirects'')) =
     Return ((Some 0, Some (External ''*url.Error'' ''stopped after 10 redirects'')), one_response 302 ''moved'')"
  using checkResp_transport_error[of stdlib_ref empty_heap None]
    checkResp_transport_error[of stdlib_ref "one_response 302 ''moved''" "Some 0"]
  by simp

text \<open>
  C9. With a nil transport error, \<open>checkResp\<close> reads the body of every response to
  its end and closes it, and returns a non-nil error with the response pointer it was
  given, whatever the status code is.
\<close>

theorem checkResp_reads_closes_and_fails:
  assumes "load (responses h) resp = Some r"
  shows "\<exists>e h'. checkResp L h resp None = Return ((resp, Some e), h') \<and>
          load (responses h') resp =
            Some (r\<lparr>Body := (Body r)\<lparr>unread := [], read_calls := Suc (read_calls (Body r)),
                                       close_calls := Suc (close_calls (Body r))\<rparr>\<rparr>)"
proof -
  from assms obtain a where a: "resp = Some a" "a < length (responses h)" "responses h ! a = r"
    by (auto dest: load_SomeD)
  show ?thesis
    unfolding a(1) checkResp_eq[OF a(2)] parseErr_eq[OF a(2)]
    using a(2,3) by (simp add: load_store_Body drained_eq)
qed

theorem checkResp_reads_closes_and_fails_witness:
  "load (responses (one_response 200 ''{}'')) (Some 0) = Some \<lparr>StatusCode = 200, Body = fresh_body ''{}''\<rparr> \<and>
   (\<exists>e h'. checkResp stdlib_ref (one_response 200 ''{}'') (Some 0) None = Return ((Some 0, Some e), h') \<and>
      load (responses h') (Some 0) =
        Some \<lparr>StatusCode = 200, Body = \<lparr>unread = [], read_error = None, read_calls = 1, close_calls = 1\<rparr>\<rparr>)"
  using checkResp_reads_closes_and_fails[of "one_response 200 ''{}''" "Some 0"
      "\<lparr>StatusCode = 200, Body = fresh_body ''{}''\<rparr>" stdlib_ref]
  by (simp add: one_response_simps fresh_body_def)

text \<open>
  C1 (the source does otherwise). For a response with status 200 or 204 and a nil
  transport error the claim expects the response back with a nil error and an
  untouched body. The condition of the source,
  \<^verbatim>\<open>resp.StatusCode != 200 || resp.StatusCode != 204\<close>, holds for every status, so
  \<open>checkResp\<close> returns a non-nil error for these responses too, and their body has
  been read and closed.
\<close>

theorem checkResp_status_200_204_fails:
  assumes "load (responses h) resp = Some r" and "StatusCode r = 200 \<or> StatusCode r = 204"
  shows "\<exists>e h'. checkResp L h resp None = Return ((resp, Some e), h') \<and>
          load (responses h') resp = Some (r\<lparr>Body := drained (Body r)\<rparr>) \<and>
          drained (Body r) \<noteq> Body r"
proof -
  from assms obtain a where a: "resp = Some a" "a < length (responses h)" "responses h ! a = r"
    by (auto dest: load_SomeD)
  show ?thesis
    unfolding a(1) checkResp_eq[OF a(2)] parseErr_eq[OF a(2)]
    using a(2,3) by (simp add: load_store_Body drained_neq)
qed

theorem checkResp_status_200_204_fails_witness:
  "(\<exists>e h'. checkResp stdlib_ref (one_response 204 []) (Some 0) None = Return ((Some 0, Some e), h') \<and>
      load (responses h') (Some 0) = Some \<lparr>StatusCode = 204, Body = drained (fresh_body [])\<rparr> \<and>
      drained (fresh_body []) \<noteq> fresh_body [])"
  using checkResp_status_200_204_fails[of "one_response 204 []" "Some 0"
      "\<lparr>StatusCode = 204, Body = fresh_body []\<rparr>" stdlib_ref]
  by (simp add: one_response_simps)

text \<open>
  The same two runs in full: a 204 with an empty body, and a 200 whose body is an
  object without the fields of an error.
\<close>

lemma checkResp_204_empty_body:
  "checkResp stdlib_ref (one_response 204 []) (Some 0) None =
     Return ((Some 0, Some (Errorf
        ''Error parsing error body for non-200 request: unexpected end of JSON input'')),
       \<lparr>clients = [], responses = [\<lparr>StatusCode = 204, Body = drained (fresh_body [])\<rparr>]\<rparr>)"
  by (simp add: checkResp_eq parseErr_eq one_response_simps ref_Unmarshal_empty
        one_response_def store_Body_def fresh_body_def)

lemma checkResp_200_object:
  "checkResp stdlib_ref (one_response 200 ''{}'') (Some 0) None =
     Return ((Some 0, Some (Errorf ''API Error: : '')),
       \<lparr>clients = [], responses = [\<lparr>StatusCode = 200, Body = drained (fresh_body ''{}'')\<rparr>]\<rparr>)"
  by (simp add: checkResp_eq parseErr_eq one_response_simps ref_Unmarshal_empty_object
        one_response_def store_Body_def fresh_body_def)

text \<open>
  C5. For a response (with status 404, or any other) whose body is
  \<^verbatim>\<open>{"id":"not_found","message":"The resource was not found"}\<close>, read without a read
  error and decoded by the JSON decoder into the id \<^verbatim>\<open>not_found\<close> and the message
  \<^verbatim>\<open>The resource was not found\<close>, \<open>checkResp\<close> returns the error whose message is
  \<^verbatim>\<open>API Error: not_found: The resource was not found\<close>: the text \<^verbatim>\<open>API Error: \<close>, the
  id, \<^verbatim>\<open>: \<close> and the message, so both values stand in it as they are.
\<close>

theorem checkResp_not_found:
  assumes "load (responses h) resp = Some r"
    and "unread (Body r) = not_found_json" and "read_error (Body r) = None"
    and "json_Unmarshal L not_found_json \<lparr>Id' = [], Message = []\<rparr> =
           (\<lparr>Id' = ''not_found'', Message = ''The resource was not found''\<rparr>, None)"
  shows "\<exists>e h'. checkResp L h resp None = Return ((resp, Some e), h') \<and>
          e = Errorf ''API Error: not_found: The resource was not found'' \<and>
          Error e = ''API Error: '' @ ''not_found'' @ '': '' @ ''The resource was not found'' \<and>
          sublist ''not_found'' (Error e) \<and> sublist ''The resource was not found'' (Error e)"
proof -
  from assms(1) obtain a where a: "resp = Some a" "a < length (responses h)" "responses h ! a = r"
    by (auto dest: load_SomeD)
  have s1: "sublist ''not_found'' (''API Error: '' @ ''not_found'' @ '': The resource was not found'')"
    by (rule sublist_appendI)
  have s2: "sublist ''The resource was not found'' (''API Error: not_found: '' @ ''The resource was not found'' @ [])"
    by (rule sublist_appendI)
  show ?thesis
    unfolding a(1) checkResp_eq[OF a(2)] parseErr_eq[OF a(2)]
    using a(3) assms(2,3,4) s1 s2 by simp
qed

theorem checkResp_not_found_witness:
  "load (responses (one_response 404 not_found_json)) (Some 0) =
     Some \<lparr>StatusCode = 404, Body = fresh_body not_found_json\<rparr> \<and>
   json_Unmarshal stdlib_ref not_found_json \<lparr>Id' = [], Message = []\<rparr> =
     (\<lparr>Id' = ''not_found'', Message = ''The resource was not found''\<rparr>, None) \<and>
   (\<exists>h'. checkResp stdlib_ref (one_response 404 not_found_json) (Some 0) None =
      Return ((Some 0, Some (Errorf ''API Error: not_found: The resource was not found'')), h'))"
  using checkResp_not_found[of "one_response 404 not_found_json" "Some 0"
      "\<lparr>StatusCode = 404, Body = fresh_body not_found_json\<rparr>" stdlib_ref]
  by (simp add: one_response_simps ref_Unmarshal_not_found fresh_body_def)

text \<open>
  C6 (as amended). When the body of a response cannot be read to its end, or when the
  JSON decoder refuses it, \<open>checkResp\<close> returns the error whose message is
  \<^verbatim>\<open>Error parsing error body for non-200 request: \<close> followed by the message of the
  read or decoding error; this is no \<^verbatim>\<open>API Error\<close> message; and the body has been
  closed exactly once. (This holds for every status code.)
\<close>

theorem checkResp_decode_failure:
  assumes "load (responses h) resp = Some r"
    and "read_error (Body r) = Some e \<or>
         read_error (Body r) = None \<and>
         snd (json_Unmarshal L (unread (Body r)) \<lparr>Id' = [], Message = []\<rparr>) = Some e"
  shows "\<exists>h'. checkResp L h resp None =
            Return ((resp, Some (Errorf (''Error parsing error body for non-200 request: '' @ Error e))), h') \<and>
          load (responses h') resp = Some (r\<lparr>Body := drained (Body r)\<rparr>) \<and>
          close_calls (drained (Body r)) = Suc (close_calls (Body r)) \<and>
          (\<forall>i m. Errorf (''Error parsing error body for non-200 request: '' @ Error e) \<noteq>
                   Errorf (''API Error: '' @ i @ '': '' @ m))"
proof -
  from assms(1) obtain a where a: "resp = Some a" "a < length (responses h)" "responses h ! a = r"
    by (auto dest: load_SomeD)
  show ?thesis
    unfolding a(1) checkResp_eq[OF a(2)] parseErr_eq[OF a(2)]
    using a(2,3) assms(2)
    by (auto simp: load_store_Body drained_eq split: prod.splits)
qed

theorem checkResp_decode_failure_witness:
  "load (responses (one_response 500 [])) (Some 0) = Some \<lparr>StatusCode = 500, Body = fresh_body []\<rparr> \<and>
   read_error (fresh_body []) = None \<and>
   snd (json_Unmarshal stdlib_ref (unread (fresh_body [])) \<lparr>Id' = [], Message = []\<rparr>) =
     Some (External ''*json.SyntaxError'' ''unexpected end of JSON input'') \<and>
   (\<exists>h'. checkResp stdlib_ref (one_response 500 []) (Some 0) None =
      Return ((Some 0, Some (Errorf
        ''Error parsing error body for non-200 request: unexpected end of JSON input'')), h') \<and>
      load (responses h') (Some 0) = Some \<lparr>StatusCode = 500, Body = drained (fresh_body [])\<rparr> \<and>
      close_calls (drained (fresh_body [])) = 1)"
  using checkResp_decode_failure[of "one_response 500 []" "Some 0"
      "\<lparr>StatusCode = 500, Body = fresh_body []\<rparr>"
      "External ''*json.SyntaxError'' ''unexpected end of JSON input''" stdlib_ref]
  by (simp add: one_response_simps ref_Unmarshal_empty fresh_body_def)

text \<open>
  C6 as it was stated fails: the bodies \<^verbatim>\<open>null\<close> and \<^verbatim>\<open>{}\<close> are no JSON objects
  with an id and a message, but \<^verbatim>\<open>json.Unmarshal\<close> accepts them and leaves the
  \<^verbatim>\<open>DoError\<close> empty, so for a response with status 500 and such a body \<open>checkResp\<close>
  returns the error \<^verbatim>\<open>API Error: : \<close>, not a decoding error.
\<close>

theorem checkResp_null_body_counterexample:
  "checkResp stdlib_ref (one_response 500 ''null'') (Some 0) None =
     Return ((Some 0, Some (Errorf ''API Error: : '')),
       \<lparr>clients = [], responses = [\<lparr>StatusCode = 500, Body = drained (fresh_body ''null'')\<rparr>]\<rparr>) \<and>
   checkResp stdlib_ref (one_response 500 ''{}'') (Some 0) None =
     Return ((Some 0, Some (Errorf ''API Error: : '')),
       \<lparr>clients = [], responses = [\<lparr>StatusCode = 500, Body = drained (fresh_body ''{}'')\<rparr>]\<rparr>)"
  by (simp add: checkResp_eq parseErr_eq one_response_simps ref_Unmarshal_null
        ref_Unmarshal_empty_object one_response_def store_Body_def fresh_body_def)

text \<open>
  Two runs of the validator on stores with the same responses do the same, whatever
  clients the stores hold.
\<close>

lemma decodeBody_observable:
  "responses h1 = responses h2 \<Longrightarrow>
   decodeBody L h1 resp out = Panic \<and> decodeBody L h2 resp out = Panic \<or>
   (\<exists>res h1' h2'. decodeBody L h1 resp out = Return (res, h1') \<and>
      decodeBody L h2 resp out = Return (res, h2') \<and> responses h1' = responses h2' \<and>
      clients h1' = clients h1 \<and> clients h2' = clients h2)"
  by (auto simp: decodeBody_def store_Body_def Let_def split: option.splits prod.splits)

lemma parseErr_observable:
  assumes "responses h1 = responses h2"
  shows "parseErr L h1 resp = Panic \<and> parseErr L h2 resp = Panic \<or>
   (\<exists>res h1' h2'. parseErr L h1 resp = Return (res, h1') \<and>
      parseErr L h2 resp = Return (res, h2') \<and> responses h1' = responses h2' \<and>
      clients h1' = clients h1 \<and> clients h2' = clients h2)"
  using decodeBody_observable[OF assms, of L resp "\<lparr>Id' = [], Message = []\<rparr>"]
  by (auto simp: parseErr_def split: option.splits)

lemma checkResp_observable:
  assumes "responses h1 = responses h2"
  shows "checkResp L h1 resp err = Panic \<and> checkResp L h2 resp err = Panic \<or>
   (\<exists>res h1' h2'. checkResp L h1 resp err = Return (res, h1') \<and>
      checkResp L h2 resp err = Return (res, h2') \<and> responses h1' = responses h2' \<and>
      clients h1' = clients h1 \<and> clients h2' = clients h2)"
  using parseErr_observable[OF assms, of L resp] assms
  by (auto simp: checkResp_def split: option.splits)

text \<open>
  C8 (as amended). The errors of the validator are computed from the response and the
  transport error alone: \<open>checkResp\<close> and \<open>parseErr\<close> read no client, and so no
  token. Two runs on stores that hold the same responses and any clients, with any
  tokens, return the same pointer and the same error and leave the same responses;
  neither run changes a client.
\<close>

theorem validator_errors_independent_of_clients:
  assumes "responses h1 = responses h2"
  shows "observable (checkResp L h1 resp err) = observable (checkResp L h2 resp err) \<and>
         observable (parseErr L h1 resp) = observable (parseErr L h2 resp) \<and>
         (case checkResp L h1 resp err of Panic \<Rightarrow> True | Return (res, h') \<Rightarrow> clients h' = clients h1) \<and>
         (case parseErr L h1 resp of Panic \<Rightarrow> True | Return (e, h') \<Rightarrow> clients h' = clients h1)"
  using checkResp_observable[OF assms, of L resp err] parseErr_observable[OF assms, of L resp]
  by (auto simp: observable_def)

theorem validator_errors_independent_of_clients_witness:
  "responses (with_client ''token-one'' (one_response 404 not_found_json)) =
   responses (with_client ''token-two'' (one_response 404 not_found_json)) \<and>
   observable (checkResp stdlib_ref (with_client ''token-one'' (one_response 404 not_found_json)) (Some 0) None) =
   observable (checkResp stdlib_ref (with_client ''token-two'' (one_response 404 not_found_json)) (Some 0) None) \<and>
   observable (checkResp stdlib_ref (with_client ''token-two'' (one_response 404 not_found_json)) (Some 0) None) =
     Return ((Some 0, Some (Errorf ''API Error: not_found: The resource was not found'')),
             [\<lparr>StatusCode = 404, Body = drained (fresh_body not_found_json)\<rparr>])"
  using validator_errors_independent_of_clients[of
      "with_client ''token-one'' (one_response 404 not_found_json)"
      "with_client ''token-two'' (one_response 404 not_found_json)" stdlib_ref "Some 0" None]
  by (simp add: with_client_def NewClient_def one_response_def observable_def checkResp_eq parseErr_eq
        store_Body_def fresh_body_def ref_Unmarshal_not_found)

text \<open>
  C8 as it was stated fails: an error of the validator can hold the token of the
  client. Here the client has the token \<^verbatim>\<open>secret\<close>, the server answers 401 with a
  message that repeats it, and \<open>checkResp\<close> copies the message into its error.
\<close>

theorem checkResp_echoed_token_counterexample:
  "load (clients (with_client ''secret'' (one_response 401 unauthorized_json))) (Some 0) =
     Some \<lparr>Token = ''secret'', URL = ''https://api.digitalocean.com/v2'', Http = None\<rparr> \<and>
   checkResp stdlib_ref (with_client ''secret'' (one_response 401 unauthorized_json)) (Some 0) None =
     Return ((Some 0, Some (Errorf ''API Error: unauthorized: bad token secret'')),
       \<lparr>clients = [\<lparr>Token = ''secret'', URL = ''https://api.digitalocean.com/v2'', Http = None\<rparr>],
        responses = [\<lparr>StatusCode = 401, Body = drained (fresh_body unauthorized_json)\<rparr>]\<rparr>) \<and>
   sublist ''secret'' (Error (Errorf ''API Error: unauthorized: bad token secret''))"
proof -
  have "sublist ''secret'' (''API Error: unauthorized: bad token '' @ ''secret'' @ [])"
    by (rule sublist_appendI)
  then show ?thesis
    by (simp add: with_client_def NewClient_def one_response_def load_def DIGITALOCEAN_API_URL_def
          checkResp_eq parseErr_eq store_Body_def fresh_body_def ref_Unmarshal_unauthorized)
qed

subsection \<open>NewClient\<close>

text \<open>
  C10. For every token, the empty string included, \<open>NewClient\<close> returns a pointer
  that is not nil and a nil error; the client at that pointer holds the given token
  and the URL \<^verbatim>\<open>https://api.digitalocean.com/v2\<close>; the pointer is new, and nothing else
  in the store has changed.
\<close>

theorem NewClient_returns_client:
  "\<exists>a h'. NewClient token h = ((Some a, None), h') \<and>
     load (clients h') (Some a) =
       Some \<lparr>Token = token, URL = ''https://api.digitalocean.com/v2'', Http = None\<rparr> \<and>
     load (clients h) (Some a) = None \<and>
     take (length (clients h)) (clients h') = clients h \<and> responses h' = responses h"
  by (simp add: NewClient_def load_def DIGITALOCEAN_API_URL_def)

theorem NewClient_returns_client_witness:
  "NewClient [] empty_heap =
     ((Some 0, None), \<lparr>clients = [\<lparr>Token = [], URL = ''https://api.digitalocean.com/v2'', Http = None\<rparr>], responses = []\<rparr>)"
  using NewClient_returns_client[of "[]" empty_heap]
  by (simp add: NewClient_def empty_heap_def DIGITALOCEAN_API_URL_def)

subsection \<open>Client.NewRequest\<close>


lemma canonical_Authorization: "CanonicalMIMEHeaderKey ''Authorization'' = ''Authorization''"
  by code_simp

lemma ref_Parse_base:
  "url_Parse stdlib_ref ''https://api.digitalocean.com/v2'' =
     Inr \<lparr>Scheme = ''https'', Opaque = [], User = None, Host = ''api.digitalocean.com'',
          Path = ''/v2'', RawPath = [], OmitHost = False, ForceQuery = False, RawQuery = [],
          Fragment = [], RawFragment = []\<rparr>"
  by code_simp

lemma ref_String_page:
  "URL_String stdlib_ref \<lparr>Scheme = ''https'', Opaque = [], User = None, Host = ''api.digitalocean.com'',
          Path = ''/v2'', RawPath = [], OmitHost = False, ForceQuery = False, RawQuery = ''page=2'',
          Fragment = [], RawFragment = []\<rparr> = ''https://api.digitalocean.com/v2?page=2''"
  by code_simp

lemma ref_Parse_page:
  "url_Parse stdlib_ref ''https://api.digitalocean.com/v2?page=2'' =
     Inr \<lparr>Scheme = ''https'', Opaque = [], User = None, Host = ''api.digitalocean.com'',
          Path = ''/v2'', RawPath = [], OmitHost = False, ForceQuery = False, RawQuery = ''page=2'',
          Fragment = [], RawFragment = []\<rparr>"
  by code_simp

lemma query_of_page: "query_of [(''page'', ''2'')] = ''page=2''"
  by code_simp

lemma with_client_empty:
  "with_client token empty_heap =
     \<lparr>clients = [\<lparr>Token = token, URL = ''https://api.digitalocean.com/v2'', Http = None\<rparr>], responses = []\<rparr>"
  by (simp add: with_client_def NewClient_def empty_heap_def DIGITALOCEAN_API_URL_def)

lemma validMethod_GET: "validMethod ''GET''"
  by code_simp

lemma removeEmptyPort_api: "removeEmptyPort ''api.digitalocean.com'' = ''api.digitalocean.com''"
  by code_simp

lemma NewRequest_page:
  "NewRequest stdlib_ref (with_client ''secret'' empty_heap) (Some 0) [(''page'', ''2'')] ''GET'' ''/droplets'' =
     Return (Inr \<lparr>Method = ''GET'',
       Req_URL = \<lparr>Scheme = ''https'', Opaque = [], User = None, Host = ''api.digitalocean.com'',
          Path = ''/v2'', RawPath = [], OmitHost = False, ForceQuery = False, RawQuery = ''page=2'',
          Fragment = [], RawFragment = []\<rparr>,
       Proto = ''HTTP/1.1'', Header = [''Authorization'' \<mapsto> [''Bearer secret'']],
       Req_Host = ''api.digitalocean.com''\<rparr>)"
  by (simp add: NewRequest_def with_client_empty load_def ref_Parse_base query_of_page ref_String_page
        http_NewRequest_def validMethod_GET ref_Parse_page removeEmptyPort_api Header_Add_def
        canonical_Authorization)




text \<open>
  C2 (the source does otherwise). The claim expects the target of the request to be
  the base URL joined with the endpoint path and the query. \<open>NewRequest\<close> never
  reads its parameter \<^verbatim>\<open>endpoint\<close>: it parses \<^verbatim>\<open>c.URL\<close> alone, so the request is
  the same for every endpoint, and its target is the base URL with the query.
\<close>

theorem NewRequest_ignores_endpoint:
  "NewRequest L h c params method endpoint = NewRequest L h c params method endpoint'"
  by (simp add: NewRequest_def)

theorem NewRequest_ignores_endpoint_witness:
  "NewRequest stdlib_ref (with_client ''secret'' empty_heap) (Some 0) [(''page'', ''2'')] ''GET'' ''/droplets'' =
   NewRequest stdlib_ref (with_client ''secret'' empty_heap) (Some 0) [(''page'', ''2'')] ''GET'' ''/account/keys''"
  by (rule NewRequest_ignores_endpoint)

text \<open>
  The target of the request for the endpoint \<^verbatim>\<open>/droplets\<close>, printed again:
  \<^verbatim>\<open>/droplets\<close> is not in it.
\<close>

lemma NewRequest_droplets_target:
  "(case NewRequest stdlib_ref (with_client ''secret'' empty_heap) (Some 0) [(''page'', ''2'')] ''GET'' ''/droplets'' of
      Return (Inr req) \<Rightarrow> Some (URL_String stdlib_ref (Req_URL req))
    | _ \<Rightarrow> None) = Some ''https://api.digitalocean.com/v2?page=2''"
  by (simp add: NewRequest_page ref_String_page)

subsection \<open>The query string\<close>



















































end
